theory Spec2Isabelle
  imports Main "HOL-Library.Word" "HOL-Library.Sublist"
begin

section \<open>JavaScript strings\<close>

text \<open>
  A JavaScript string is a sequence of UTF-16 code units; \<open>length\<close>, \<open>substring\<close>,
  \<open>split\<close> and \<open>includes\<close> all count code units.  A literal of the source is written
  \<open>js ''...''\<close>.
\<close>

type_synonym jsstring = "16 word list"

definition js :: "string \<Rightarrow> jsstring" where
  "js s = map of_char s"

text \<open>
  \<open>String.prototype.trim\<close> removes WhiteSpace and LineTerminator code points from both
  ends (ECMAScript, 22.1.3.32): TAB, LF, VT, FF, CR, SP, NBSP, U+1680, U+2000..U+200A,
  U+2028, U+2029, U+202F, U+205F, U+3000 and U+FEFF.
\<close>

definition isWhiteSpace :: "16 word \<Rightarrow> bool" where
  "isWhiteSpace c \<longleftrightarrow>
     c = 0x0009 \<or> c = 0x000A \<or> c = 0x000B \<or> c = 0x000C \<or> c = 0x000D \<or> c = 0x0020 \<or>
     c = 0x00A0 \<or> c = 0x1680 \<or> (0x2000 \<le> c \<and> c \<le> 0x200A) \<or> c = 0x2028 \<or> c = 0x2029 \<or>
     c = 0x202F \<or> c = 0x205F \<or> c = 0x3000 \<or> c = 0xFEFF"

definition trim :: "jsstring \<Rightarrow> jsstring" where
  "trim s = rev (dropWhile isWhiteSpace (rev (dropWhile isWhiteSpace s)))"

text \<open>\<open>s.split('\n')[0]\<close>: the code units before the first LF (all of \<open>s\<close> without one).\<close>

definition split_newline_0 :: "jsstring \<Rightarrow> jsstring" where
  "split_newline_0 s = takeWhile (\<lambda>c. c \<noteq> 0x000A) s"

text \<open>\<open>s.substring(0, n)\<close> for a literal \<open>n \<ge> 0\<close>.\<close>

definition substring_0 :: "nat \<Rightarrow> jsstring \<Rightarrow> jsstring" where
  "substring_0 n s = take n s"

text \<open>\<open>a || b\<close> on strings: the empty string is the only falsy string.\<close>

definition or_else :: "jsstring \<Rightarrow> jsstring \<Rightarrow> jsstring" where
  "or_else a b = (if a = [] then b else a)"

text \<open>\<open>s.includes(t)\<close>: \<open>t\<close> occurs in \<open>s\<close> as a run of consecutive code units.\<close>

fun includes_js :: "jsstring \<Rightarrow> jsstring \<Rightarrow> bool" where
  "includes_js [] t = (t = [])"
| "includes_js (c # s) t = (prefix t (c # s) \<or> includes_js s t)"

section \<open>The host: built-ins the source calls\<close>

text \<open>
  The source relies on three built-ins whose results depend on the JavaScript engine and
  on the machine it runs on.  They are parameters of the model:
  \<^item> \<open>toLowerCase\<close>: \<open>String.prototype.toLowerCase\<close> (Unicode case mapping);
  \<^item> \<open>DateParse\<close>: the time value, in milliseconds since the epoch, that
    \<open>new Date(string)\<close> gives; \<open>None\<close> is NaN, an Invalid Date;
  \<^item> \<open>LocalTZA\<close>: the offset of local time in milliseconds, as in ECMAScript 21.4.1.
\<close>

record host =
  toLowerCase :: "jsstring \<Rightarrow> jsstring"
  DateParse :: "jsstring \<Rightarrow> int option"
  LocalTZA :: "int \<Rightarrow> bool \<Rightarrow> int"

section \<open>Data model (types.ts)\<close>

record User =
  uid :: jsstring
  email :: jsstring

record Note =
  note_id :: jsstring
  user_id :: jsstring
  title :: jsstring
  content :: jsstring
  updated_at :: jsstring
  created_at :: "jsstring option"

datatype AppView = AUTH | LIST | EDITOR

datatype AIActionType = FIX_GRAMMAR | SUMMARIZE | CONTINUE_WRITING

section \<open>Search filter\<close>

text \<open>
  \<open>filteredNotes\<close> of the first \<open>App\<close> component:
  \<^verbatim>\<open>
  if (!searchQuery) return notes;
  const lowerQ = searchQuery.toLowerCase();
  return notes.filter(n =>
    n.title.toLowerCase().includes(lowerQ) ||
    n.content.toLowerCase().includes(lowerQ));
  \<close>
\<close>

definition filteredNotes :: "host \<Rightarrow> Note list \<Rightarrow> jsstring \<Rightarrow> Note list" where
  "filteredNotes h notes searchQuery =
     (if searchQuery = [] then notes
      else let lowerQ = toLowerCase h searchQuery
           in filter (\<lambda>n. includes_js (toLowerCase h (title n)) lowerQ \<or>
                           includes_js (toLowerCase h (content n)) lowerQ) notes)"

text \<open>
  The local \<open>filtered\<close> of \<open>groupedNotes\<close> in the second \<open>App\<close> component:
  \<^verbatim>\<open>
  const filtered = notes.filter(n => {
      if (!searchQuery) return true;
      const q = searchQuery.toLowerCase();
      return n.title.toLowerCase().includes(q) || n.content.toLowerCase().includes(q);
  });
  \<close>
\<close>

definition filtered :: "host \<Rightarrow> Note list \<Rightarrow> jsstring \<Rightarrow> Note list" where
  "filtered h notes searchQuery =
     filter (\<lambda>n. if searchQuery = [] then True
                 else let q = toLowerCase h searchQuery
                      in includes_js (toLowerCase h (title n)) q \<or>
                         includes_js (toLowerCase h (content n)) q) notes"

text \<open>
  The specification's reading of the filter: a note matches when its title or its content
  contains the query as a substring, both sides compared in lower case.
\<close>

definition contains_ci :: "host \<Rightarrow> jsstring \<Rightarrow> jsstring \<Rightarrow> bool" where
  "contains_ci h s q \<longleftrightarrow> sublist (toLowerCase h q) (toLowerCase h s)"

definition matches :: "host \<Rightarrow> jsstring \<Rightarrow> Note \<Rightarrow> bool" where
  "matches h q n \<longleftrightarrow> contains_ci h (title n) q \<or> contains_ci h (content n) q"

section \<open>Dates\<close>

text \<open>
  A \<open>Date\<close> object is its time value: milliseconds since the epoch, or NaN (\<open>None\<close>) for
  an Invalid Date.  A JavaScript number that may be NaN is an \<open>int option\<close>; every
  comparison with NaN is false and arithmetic on NaN gives NaN.  All time values are
  integers below \<open>2^53\<close> in magnitude, and so is the one constant they are compared with,
  so the integer arithmetic below is the arithmetic of the doubles.
\<close>

type_synonym Date = "int option"

definition num_eq :: "int option \<Rightarrow> int option \<Rightarrow> bool" where
  "num_eq a b = (case a of None \<Rightarrow> False | Some x \<Rightarrow> (case b of None \<Rightarrow> False | Some y \<Rightarrow> x = y))"

definition num_lt :: "int option \<Rightarrow> int option \<Rightarrow> bool" where
  "num_lt a b = (case a of None \<Rightarrow> False | Some x \<Rightarrow> (case b of None \<Rightarrow> False | Some y \<Rightarrow> x < y))"

definition num_sub :: "int option \<Rightarrow> int option \<Rightarrow> int option" where
  "num_sub a b = (case a of None \<Rightarrow> None | Some x \<Rightarrow> (case b of None \<Rightarrow> None | Some y \<Rightarrow> Some (x - y)))"

definition msPerDay :: int where
  "msPerDay = 86400000"

definition Day :: "int \<Rightarrow> int" where
  "Day t = t div msPerDay"

definition TimeWithinDay :: "int \<Rightarrow> int" where
  "TimeWithinDay t = t mod msPerDay"

text \<open>
  The proleptic Gregorian calendar of ECMAScript 21.4.1: the year, the month (0 to 11) and
  the day of the month (1 to 31) of a day number counted from 1 January 1970, and the day
  number of the first of a month.  The computation works in 400-year eras that start on
  1 March.
\<close>

definition civil_from_days :: "int \<Rightarrow> int \<times> int \<times> int" where
  "civil_from_days z =
     (let z' = z + 719468;
          era = z' div 146097;
          doe = z' mod 146097;
          yoe = (doe - doe div 1460 + doe div 36524 - doe div 146096) div 365;
          doy = doe - (365 * yoe + yoe div 4 - yoe div 100);
          mp = (5 * doy + 2) div 153;
          d = doy - (153 * mp + 2) div 5 + 1;
          m = (if mp < 10 then mp + 2 else mp - 10);
          y = yoe + era * 400
      in (if m \<le> 1 then y + 1 else y, m, d))"

definition days_from_civil :: "int \<Rightarrow> int \<Rightarrow> int" where
  "days_from_civil year month =
     (let y = (if month \<le> 1 then year - 1 else year);
          era = y div 400;
          yoe = y mod 400;
          mp = (if month \<le> 1 then month + 10 else month - 2);
          doy = (153 * mp + 2) div 5;
          doe = yoe * 365 + yoe div 4 - yoe div 100 + doy
      in era * 146097 + doe - 719468)"

definition YearFromTime :: "int \<Rightarrow> int" where
  "YearFromTime t = fst (civil_from_days (Day t))"

definition MonthFromTime :: "int \<Rightarrow> int" where
  "MonthFromTime t = fst (snd (civil_from_days (Day t)))"

definition DateFromTime :: "int \<Rightarrow> int" where
  "DateFromTime t = snd (snd (civil_from_days (Day t)))"

definition MakeDay :: "int \<Rightarrow> int \<Rightarrow> int \<Rightarrow> int" where
  "MakeDay year month date = days_from_civil (year + month div 12) (month mod 12) + date - 1"

definition MakeDate :: "int \<Rightarrow> int \<Rightarrow> int" where
  "MakeDate day time = day * msPerDay + time"

definition TimeClip :: "int \<Rightarrow> int option" where
  "TimeClip t = (if \<bar>t\<bar> > 8640000000000000 then None else Some t)"

definition LocalTime :: "host \<Rightarrow> int \<Rightarrow> int" where
  "LocalTime h t = t + LocalTZA h t True"

definition UTC :: "host \<Rightarrow> int \<Rightarrow> int" where
  "UTC h t = t - LocalTZA h t False"

definition getTime :: "Date \<Rightarrow> int option" where
  "getTime d = d"

definition getFullYear :: "host \<Rightarrow> Date \<Rightarrow> int option" where
  "getFullYear h d = map_option (\<lambda>t. YearFromTime (LocalTime h t)) d"

definition getMonth :: "host \<Rightarrow> Date \<Rightarrow> int option" where
  "getMonth h d = map_option (\<lambda>t. MonthFromTime (LocalTime h t)) d"

definition getDate :: "host \<Rightarrow> Date \<Rightarrow> int option" where
  "getDate h d = map_option (\<lambda>t. DateFromTime (LocalTime h t)) d"

text \<open>\<open>Date.prototype.setDate\<close> (ECMAScript 21.4.4.20); the result is the new time value.\<close>

definition setDate :: "host \<Rightarrow> Date \<Rightarrow> int option \<Rightarrow> Date" where
  "setDate h d dt =
     (case d of None \<Rightarrow> None
      | Some t0 \<Rightarrow>
          (case dt of None \<Rightarrow> None
           | Some n \<Rightarrow>
               let t = LocalTime h t0;
                   newDate = MakeDate (MakeDay (YearFromTime t) (MonthFromTime t) n) (TimeWithinDay t)
               in TimeClip (UTC h newDate)))"

section \<open>Recency grouping\<close>

text \<open>
  \<open>groupedNotes\<close> of the second \<open>App\<close> component.  The object \<open>groups\<close> is a list of
  keys with their arrays, in the order the keys were created (the order \<open>Object.keys\<close>
  gives them in); \<open>{}\<close> is the empty list.  The two \<open>new Date()\<close> of the source read the
  clock twice: \<open>now1\<close> for \<open>today\<close> and \<open>now2\<close> for \<open>yesterday\<close>.
\<close>

type_synonym groups = "(string \<times> Note list) list"

definition isSameDay :: "host \<Rightarrow> Date \<Rightarrow> Date \<Rightarrow> bool" where
  "isSameDay h d1 d2 \<longleftrightarrow>
     num_eq (getDate h d1) (getDate h d2) \<and>
     num_eq (getMonth h d1) (getMonth h d2) \<and>
     num_eq (getFullYear h d1) (getFullYear h d2)"

definition push :: "string \<Rightarrow> Note \<Rightarrow> groups \<Rightarrow> groups" where
  "push k n g = map (\<lambda>(k', ns). if k' = k then (k', ns @ [n]) else (k', ns)) g"

definition today_of :: "int \<Rightarrow> Date" where
  "today_of now1 = Some now1"

definition yesterday_of :: "host \<Rightarrow> int \<Rightarrow> Date" where
  "yesterday_of h now2 = setDate h (Some now2) (num_sub (getDate h (Some now2)) (Some 1))"

text \<open>The body of the \<open>forEach\<close> callback.\<close>

definition group_note :: "host \<Rightarrow> Date \<Rightarrow> Date \<Rightarrow> Note \<Rightarrow> groups \<Rightarrow> groups" where
  "group_note h today yesterday note g =
     (let date = DateParse h (updated_at note) in
      if isSameDay h date today then push ''Today'' note g
      else if isSameDay h date yesterday then push ''Yesterday'' note g
      else if num_lt (num_sub (getTime today) (getTime date)) (Some (30 * 24 * 60 * 60 * 1000))
           then push ''Previous 30 Days'' note g
      else push ''Older'' note g)"

definition groupedNotes :: "host \<Rightarrow> int \<Rightarrow> int \<Rightarrow> Note list \<Rightarrow> jsstring \<Rightarrow> groups" where
  "groupedNotes h now1 now2 notes searchQuery =
     (if length notes = 0 then []
      else
        let today = today_of now1;
            yesterday = yesterday_of h now2;
            groups = [(''Today'', []), (''Yesterday'', []), (''Previous 30 Days'', []), (''Older'', [])]
        in fold (group_note h today yesterday) (filtered h notes searchQuery) groups)"

text \<open>\<open>groupedNotes[group]\<close>, with no notes for a key that the object does not have.\<close>

definition bucket :: "groups \<Rightarrow> string \<Rightarrow> Note list" where
  "bucket g k = (case map_of g k of None \<Rightarrow> [] | Some ns \<Rightarrow> ns)"

text \<open>
  The specification's four recency buckets, for the dates \<open>today\<close> and \<open>yesterday\<close> that
  the source computes from the clock: Today is the calendar day of \<open>today\<close>, Yesterday the
  calendar day of \<open>yesterday\<close>, Previous 30 Days is neither with less than 30 days of
  elapsed time, Older is everything else.
\<close>

datatype Recency = Today | Yesterday | Previous_30_Days | Older

definition thirty_days :: int where
  "thirty_days = 30 * 24 * 60 * 60 * 1000"

definition recency :: "host \<Rightarrow> int \<Rightarrow> int \<Rightarrow> Note \<Rightarrow> Recency" where
  "recency h now1 now2 n =
     (let updatedAt = DateParse h (updated_at n) in
      if isSameDay h updatedAt (today_of now1) then Today
      else if isSameDay h updatedAt (yesterday_of h now2) then Yesterday
      else if (case updatedAt of None \<Rightarrow> False | Some u \<Rightarrow> now1 - u < thirty_days)
           then Previous_30_Days
      else Older)"

fun recency_key :: "Recency \<Rightarrow> string" where
  "recency_key Today = ''Today''"
| "recency_key Yesterday = ''Yesterday''"
| "recency_key Previous_30_Days = ''Previous 30 Days''"
| "recency_key Older = ''Older''"

section \<open>The remote store\<close>

text \<open>
  Modelled from the spec: the Supabase client (\<open>./supabaseClient\<close>) and the remote table
  behind it are not among the sources.  The model follows section 6 of the specification
  (upsert creates or replaces by identifier, fetch is per owner and ordered by
  \<open>updatedAt\<close> descending, delete is by identifier) and the SQL schema that comes with the
  second \<open>App\<close> component (the row-level security policies and the trigger that sets
  \<open>updated_at\<close> on update).

  Whether a request reaches the server is not decided by the program.  The world holds the
  replies the network will give, one for each request in turn; when the list is used up the
  server cannot be reached.
\<close>

datatype reply =
    Served jsstring      \<comment> \<open>the request is executed; the string is the server's \<open>now()\<close>\<close>
  | Rejected jsstring    \<comment> \<open>the client returns \<open>{ error }\<close> with this message\<close>
  | Unreachable jsstring \<comment> \<open>the client throws; the string is \<open>err.message\<close>, empty when it has none\<close>

datatype event = Upsert Note | Select jsstring | Delete jsstring | Alert jsstring

record world =
  table :: "Note list"
  auth_uid :: "jsstring option"
  replies :: "reply list"
  trace :: "event list"

datatype 'a response = Data 'a | Error jsstring | Throws jsstring

definition request :: "event \<Rightarrow> world \<Rightarrow> reply \<times> world" where
  "request e w =
     (case replies w of
        [] \<Rightarrow> (Unreachable [], w\<lparr>trace := trace w @ [e]\<rparr>)
      | r # rs \<Rightarrow> (r, w\<lparr>replies := rs, trace := trace w @ [e]\<rparr>))"

definition rls_violation :: jsstring where
  "rls_violation = js ''new row violates row-level security policy for table \"notes\"''"

definition supabase_upsert :: "Note \<Rightarrow> world \<Rightarrow> unit response \<times> world" where
  "supabase_upsert n w0 =
     (let (r, w) = request (Upsert n) w0 in
      case r of
        Unreachable m \<Rightarrow> (Throws m, w)
      | Rejected m \<Rightarrow> (Error m, w)
      | Served now \<Rightarrow>
          if auth_uid w \<noteq> Some (user_id n) then (Error rls_violation, w)
          else
            (case find (\<lambda>r. note_id r = note_id n) (table w) of
               None \<Rightarrow>
                 (Data (),
                  w\<lparr>table := table w @
                     [n\<lparr>created_at := (case created_at n of None \<Rightarrow> Some now | Some c \<Rightarrow> Some c)\<rparr>]\<rparr>)
             | Some old \<Rightarrow>
                 if user_id old \<noteq> user_id n then (Error rls_violation, w)
                 else
                   (Data (),
                    w\<lparr>table := map (\<lambda>r. if note_id r = note_id n
                                         then n\<lparr>updated_at := now,
                                                created_at := (case created_at n of
                                                                 None \<Rightarrow> created_at r
                                                               | Some c \<Rightarrow> Some c)\<rparr>
                                         else r) (table w)\<rparr>)))"

definition stamp :: "host \<Rightarrow> Note \<Rightarrow> int" where
  "stamp h n = (case DateParse h (updated_at n) of None \<Rightarrow> 0 | Some t \<Rightarrow> t)"

definition supabase_select :: "host \<Rightarrow> jsstring \<Rightarrow> world \<Rightarrow> Note list response \<times> world" where
  "supabase_select h userId w0 =
     (let (r, w) = request (Select userId) w0 in
      case r of
        Unreachable m \<Rightarrow> (Throws m, w)
      | Rejected m \<Rightarrow> (Error m, w)
      | Served now \<Rightarrow>
          (Data (sort_key (\<lambda>n. - stamp h n)
                   (filter (\<lambda>r. user_id r = userId \<and> auth_uid w = Some (user_id r)) (table w))),
           w))"

definition supabase_delete :: "jsstring \<Rightarrow> world \<Rightarrow> unit response \<times> world" where
  "supabase_delete noteId w0 =
     (let (r, w) = request (Delete noteId) w0 in
      case r of
        Unreachable m \<Rightarrow> (Throws m, w)
      | Rejected m \<Rightarrow> (Error m, w)
      | Served now \<Rightarrow>
          (Data (),
           w\<lparr>table := filter (\<lambda>r. \<not> (note_id r = noteId \<and> auth_uid w = Some (user_id r))) (table w)\<rparr>))"

section \<open>storageService: note management\<close>

text \<open>
  \<open>console.error\<close> has no effect on the state and is left out.  A function that may
  throw returns \<open>Inl\<close> of the message of the \<open>Error\<close> it throws.
\<close>

definition getNotes :: "host \<Rightarrow> jsstring \<Rightarrow> world \<Rightarrow> Note list \<times> world" where
  "getNotes h userId w0 =
     (case supabase_select h userId w0 of
        (Throws m, w) \<Rightarrow> ([], w)
      | (Error m, w) \<Rightarrow> ([], w)
      | (Data d, w) \<Rightarrow> (d, w))"

definition saveNote :: "Note \<Rightarrow> world \<Rightarrow> (jsstring + unit) \<times> world" where
  "saveNote note w0 =
     (case supabase_upsert note w0 of
        (Throws m, w) \<Rightarrow> (Inl (or_else m (js ''Failed to connect to server'')), w)
      | (Error m, w) \<Rightarrow> (Inl (or_else m (js ''Failed to connect to server'')), w)
      | (Data u, w) \<Rightarrow> (Inr (), w))"

text \<open>The message of the \<open>Error\<close> that \<open>saveNote\<close> throws when the upsert fails.\<close>

definition save_error :: "unit response \<Rightarrow> jsstring" where
  "save_error r =
     (case r of Data u \<Rightarrow> [] | Error m \<Rightarrow> or_else m (js ''Failed to connect to server'')
      | Throws m \<Rightarrow> or_else m (js ''Failed to connect to server''))"

definition deleteNote :: "jsstring \<Rightarrow> world \<Rightarrow> world" where
  "deleteNote noteId w0 = snd (supabase_delete noteId w0)"

section \<open>The App components: state and note operations\<close>

text \<open>
  The state of the component that the note operations read and write; \<open>notes_state\<close> is
  the state variable \<open>notes\<close>.  The source has two
  \<open>App\<close> components: \<open>src/unnamed/part_000\<close>, with the AI menu and \<open>filteredNotes\<close>, and
  \<open>src/unnamed/part_001\<close>, with \<open>groupedNotes\<close> and the inferred title.  Where both define
  an operation, the one of \<open>part_000\<close> carries the suffix \<open>_0\<close>.
\<close>

record App =
  currentUser :: "User option"
  currentView :: AppView
  notes_state :: "Note list"
  selectedNote :: "Note option"
  editorTitle :: jsstring
  editorContent :: jsstring
  isProcessingAI :: bool
  aiMenuOpen :: bool
  isSaving :: bool
  searchQuery :: jsstring

definition alert :: "jsstring \<Rightarrow> world \<Rightarrow> world" where
  "alert msg w = w\<lparr>trace := trace w @ [Alert msg]\<rparr>"

definition loadNotes :: "host \<Rightarrow> jsstring \<Rightarrow> App \<times> world \<Rightarrow> App \<times> world" where
  "loadNotes h userId sw =
     (let (userNotes, w) = getNotes h userId (snd sw)
      in ((fst sw)\<lparr>notes_state := userNotes\<rparr>, w))"

definition openNote :: "Note \<Rightarrow> App \<Rightarrow> App" where
  "openNote note st =
     st\<lparr>selectedNote := Some note, editorTitle := title note,
        editorContent := content note, currentView := EDITOR\<rparr>"

definition openNote_0 :: "Note \<Rightarrow> App \<Rightarrow> App" where
  "openNote_0 note st =
     st\<lparr>selectedNote := Some note, editorTitle := title note,
        editorContent := content note, currentView := EDITOR, aiMenuOpen := False\<rparr>"

text \<open>
  \<open>saveCurrentNote\<close> of \<open>part_001\<close>.  \<open>titleToSave\<close> is the value of that variable when
  the note is built; \<open>randomUUID\<close> and \<open>nowISO\<close> are what \<open>crypto.randomUUID()\<close> and
  \<open>new Date().toISOString()\<close> return.
\<close>

definition titleToSave :: "App \<Rightarrow> jsstring" where
  "titleToSave st =
     (let titleToSave = trim (editorTitle st);
          contentToSave = editorContent st
      in if titleToSave = [] \<and> contentToSave \<noteq> []
         then or_else (substring_0 30 (split_newline_0 contentToSave)) (js ''New Note'')
         else if titleToSave = [] then js ''New Note''
         else titleToSave)"

definition noteToSave :: "jsstring \<Rightarrow> jsstring \<Rightarrow> User \<Rightarrow> App \<Rightarrow> Note" where
  "noteToSave randomUUID nowISO u st =
     \<lparr>note_id = (case selectedNote st of Some sel \<Rightarrow> note_id sel | None \<Rightarrow> randomUUID),
      user_id = uid u,
      title = titleToSave st,
      content = editorContent st,
      updated_at = nowISO,
      created_at = None\<rparr>"

definition saveCurrentNote ::
  "host \<Rightarrow> jsstring \<Rightarrow> jsstring \<Rightarrow> bool \<Rightarrow> App \<times> world \<Rightarrow> App \<times> world" where
  "saveCurrentNote h randomUUID nowISO shouldExit sw =
     (let st = fst sw; w = snd sw in
      case currentUser st of
        None \<Rightarrow> (st, w)
      | Some u \<Rightarrow>
          if trim (editorTitle st) = [] \<and> trim (editorContent st) = []
          then ((if shouldExit then st\<lparr>currentView := LIST\<rparr> else st), w)
          else
            let st1 = st\<lparr>isSaving := True\<rparr>;
                n = noteToSave randomUUID nowISO u st
            in case saveNote n w of
                 (Inl message, w1) \<Rightarrow>
                   (st1\<lparr>isSaving := False\<rparr>, alert (js ''Failed to save: '' @ message) w1)
               | (Inr ok, w1) \<Rightarrow>
                   let (st2, w2) = loadNotes h (uid u) (st1, w1);
                       st3 = (if shouldExit then st2\<lparr>currentView := LIST\<rparr>
                              else st2\<lparr>selectedNote := Some n\<rparr>)
                   in (st3\<lparr>isSaving := False\<rparr>, w2))"

text \<open>\<open>saveCurrentNote\<close> of \<open>part_000\<close>: the title is \<open>editorTitle || 'New Note'\<close>.\<close>

definition noteToSave_0 :: "jsstring \<Rightarrow> jsstring \<Rightarrow> User \<Rightarrow> App \<Rightarrow> Note" where
  "noteToSave_0 randomUUID nowISO u st =
     \<lparr>note_id = (case selectedNote st of Some sel \<Rightarrow> note_id sel | None \<Rightarrow> randomUUID),
      user_id = uid u,
      title = or_else (editorTitle st) (js ''New Note''),
      content = editorContent st,
      updated_at = nowISO,
      created_at = None\<rparr>"

definition saveCurrentNote_0 ::
  "host \<Rightarrow> jsstring \<Rightarrow> jsstring \<Rightarrow> App \<times> world \<Rightarrow> App \<times> world" where
  "saveCurrentNote_0 h randomUUID nowISO sw =
     (let st = fst sw; w = snd sw in
      case currentUser st of
        None \<Rightarrow> (st, w)
      | Some u \<Rightarrow>
          if trim (editorTitle st) = [] \<and> trim (editorContent st) = []
          then (st\<lparr>currentView := LIST\<rparr>, w)
          else
            let st1 = st\<lparr>isSaving := True\<rparr>;
                n = noteToSave_0 randomUUID nowISO u st
            in case saveNote n w of
                 (Inl message, w1) \<Rightarrow>
                   (st1\<lparr>isSaving := False\<rparr>, alert (js ''Failed to save note: '' @ message) w1)
               | (Inr ok, w1) \<Rightarrow>
                   let (st2, w2) = loadNotes h (uid u) (st1, w1)
                   in (st2\<lparr>currentView := LIST, isSaving := False\<rparr>, w2))"

section \<open>Text transformation (geminiService and handleAIAction)\<close>

text \<open>
  The Gemini API is outside the program: \<open>API_KEY\<close> is \<open>process.env.API_KEY\<close> (\<open>None\<close>
  when undefined) and \<open>generateContent\<close> is what the call does for a prompt: it throws, or
  it returns a response whose \<open>text\<close> may be undefined.
\<close>

datatype generated = GenerateThrows | Response "jsstring option"

record gemini =
  API_KEY :: "jsstring option"
  generateContent :: "jsstring \<Rightarrow> generated"

definition getAIClient :: "gemini \<Rightarrow> (jsstring \<Rightarrow> generated) option" where
  "getAIClient g =
     (case API_KEY g of
        None \<Rightarrow> None
      | Some apiKey \<Rightarrow> if apiKey = [] then None else Some (generateContent g))"

definition prompt_of :: "AIActionType \<Rightarrow> jsstring \<Rightarrow> jsstring" where
  "prompt_of action content' =
     (case action of
        FIX_GRAMMAR \<Rightarrow>
          js ''Correct the grammar and spelling of the following text. Maintain the original tone and style. Return only the corrected text:''
          @ [0x0A, 0x0A] @ content'
      | SUMMARIZE \<Rightarrow>
          js ''Summarize the following text into a concise paragraph. Return only the summary:''
          @ [0x0A, 0x0A] @ content'
      | CONTINUE_WRITING \<Rightarrow>
          js ''Continue writing the following text naturally. Add about 2-3 sentences. Return only the added text (I will append it myself) or the full continued text if it flows better:''
          @ [0x0A, 0x0A] @ content')"

definition processNoteWithAI :: "gemini \<Rightarrow> jsstring \<Rightarrow> AIActionType \<Rightarrow> jsstring + jsstring" where
  "processNoteWithAI g content' action =
     (case getAIClient g of
        None \<Rightarrow> Inr content'
      | Some ai \<Rightarrow>
          (case ai (prompt_of action content') of
             GenerateThrows \<Rightarrow> Inl (js ''Failed to process text with AI'')
           | Response text \<Rightarrow>
               Inr (or_else (case text of None \<Rightarrow> [] | Some t \<Rightarrow> trim t) content')))"

definition handleAIAction :: "gemini \<Rightarrow> AIActionType \<Rightarrow> App \<times> world \<Rightarrow> App \<times> world" where
  "handleAIAction g action sw =
     (let st = fst sw; w = snd sw in
      if editorContent st = [] then (st, w)
      else
        let st1 = st\<lparr>isProcessingAI := True, aiMenuOpen := False\<rparr>
        in case processNoteWithAI g (editorContent st) action of
             Inr result \<Rightarrow> (st1\<lparr>editorContent := result, isProcessingAI := False\<rparr>, w)
           | Inl message \<Rightarrow>
               (st1\<lparr>isProcessingAI := False\<rparr>,
                alert (js ''AI processing failed. Check your API key.'') w))"

section \<open>Concrete inputs\<close>

text \<open>
  A host for concrete runs: ASCII lower-casing, the UTC time zone, and the time values of
  four ISO strings (10 March 2024 09:00, 9 March 2024 23:00, 20 February 2024 and
  1 January 2023, all UTC).  \<open>demo_now\<close> is 10 March 2024 12:00 UTC.
\<close>

definition ascii_lower :: "jsstring \<Rightarrow> jsstring" where
  "ascii_lower s = map (\<lambda>c. if 0x41 \<le> c \<and> c \<le> 0x5A then c + 0x20 else c) s"

definition demo_parse :: "jsstring \<Rightarrow> int option" where
  "demo_parse s =
     (if s = js ''2024-03-10T09:00:00.000Z'' then Some 1710061200000
      else if s = js ''2024-03-09T23:00:00.000Z'' then Some 1710025200000
      else if s = js ''2024-02-20T00:00:00.000Z'' then Some 1708387200000
      else if s = js ''2023-01-01T00:00:00.000Z'' then Some 1672531200000
      else None)"

definition demo_host :: host where
  "demo_host = \<lparr>toLowerCase = ascii_lower, DateParse = demo_parse, LocalTZA = (\<lambda>t u. 0)\<rparr>"

definition demo_now :: int where
  "demo_now = 1710072000000"

definition demo_user :: User where
  "demo_user = \<lparr>uid = js ''u1'', email = js ''u1@example.com''\<rparr>"

definition demo_note :: "string \<Rightarrow> string \<Rightarrow> string \<Rightarrow> string \<Rightarrow> Note" where
  "demo_note i t c a =
     \<lparr>note_id = js i, user_id = js ''u1'', title = js t, content = js c,
      updated_at = js a, created_at = None\<rparr>"

definition note_A :: Note where
  "note_A = demo_note ''a'' ''Buy Milk'' ''two litres'' ''2024-03-10T09:00:00.000Z''"

definition note_B :: Note where
  "note_B = demo_note ''b'' ''Call home'' ''after work'' ''2024-03-09T23:00:00.000Z''"

definition note_C :: Note where
  "note_C = demo_note ''c'' ''Taxes'' ''milk receipts'' ''2024-02-20T00:00:00.000Z''"

definition note_D :: Note where
  "note_D = demo_note ''d'' ''Old'' ''archive'' ''2023-01-01T00:00:00.000Z''"

definition demo_app :: "string \<Rightarrow> string \<Rightarrow> App" where
  "demo_app t c =
     \<lparr>currentUser = Some demo_user, currentView = EDITOR, notes_state = [note_A, note_B],
      selectedNote = None, editorTitle = js t, editorContent = js c,
      isProcessingAI = False, aiMenuOpen = False, isSaving = False, searchQuery = []\<rparr>"

definition demo_world :: "reply list \<Rightarrow> world" where
  "demo_world rs =
     \<lparr>table = [note_A, note_B], auth_uid = Some (js ''u1''), replies = rs, trace = []\<rparr>"

section \<open>Facts about the string operations\<close>

lemma includes_sublist: "includes_js s t \<longleftrightarrow> sublist t s"
  by (induction s) (auto simp: sublist_Cons_right)

lemma all_dropWhile: "(\<forall>c \<in> set (dropWhile P s). P c) \<longleftrightarrow> (\<forall>c \<in> set s. P c)"
  by (induction s) auto

lemma trim_empty_iff: "trim s = [] \<longleftrightarrow> (\<forall>c \<in> set s. isWhiteSpace c)"
  by (simp add: trim_def dropWhile_eq_Nil_conv all_dropWhile)

section \<open>The search filter\<close>

text \<open>
  Claim C5.  For every collection and query, the search filter returns the subsequence of
  the collection, in collection order, of exactly the notes whose title or content contains
  the query as a substring when both are taken to lower case; with the empty query it
  returns the whole collection.  This holds for \<open>filteredNotes\<close> and for the filter that
  \<open>groupedNotes\<close> applies, which give the same list.
\<close>

theorem search_filter_correct:
  "filteredNotes h notes q = (if q = [] then notes else filter (matches h q) notes) \<and>
   filtered h notes q = filteredNotes h notes q \<and>
   subseq (filteredNotes h notes q) notes \<and>
   set (filteredNotes h notes q) \<subseteq> set notes \<and>
   filteredNotes h notes [] = notes"
proof -
  have m: "(\<lambda>n. includes_js (toLowerCase h (title n)) (toLowerCase h q) \<or>
                includes_js (toLowerCase h (content n)) (toLowerCase h q)) = matches h q"
    by (simp add: fun_eq_iff matches_def contains_ci_def includes_sublist)
  have f: "filteredNotes h notes q = (if q = [] then notes else filter (matches h q) notes)"
    by (simp add: filteredNotes_def Let_def m)
  have g: "filtered h notes q = filteredNotes h notes q"
    by (cases "q = []") (simp_all add: filtered_def filteredNotes_def Let_def)
  have e: "filteredNotes h notes [] = notes"
    by (simp add: filteredNotes_def)
  have "subseq (filteredNotes h notes q) notes"
    by (simp add: f)
  moreover have "set (filteredNotes h notes q) \<subseteq> set notes"
    by (auto simp: f)
  ultimately show ?thesis using f g e by simp
qed

theorem search_filter_correct_witness:
  "filteredNotes demo_host [note_A, note_B, note_C] (js ''MILK'') = [note_A, note_C] \<and>
   subseq [note_A, note_C] [note_A, note_B, note_C]"
proof -
  have m: "matches demo_host (js ''MILK'') note_A" "\<not> matches demo_host (js ''MILK'') note_B"
          "matches demo_host (js ''MILK'') note_C"
    by code_simp+
  have q: "js ''MILK'' \<noteq> []" by (simp add: js_def)
  show ?thesis
    using search_filter_correct [of demo_host "[note_A, note_B, note_C]" "js ''MILK''"]
    by (simp add: m q)
qed

section \<open>Recency grouping\<close>

lemma num_lt_sub:
  "num_lt (num_sub (getTime (today_of now1)) (getTime d)) (Some k) \<longleftrightarrow>
   (case d of None \<Rightarrow> False | Some u \<Rightarrow> now1 - u < k)"
  by (simp add: num_lt_def num_sub_def getTime_def today_of_def split: option.splits)

lemma group_note_recency:
  "group_note h (today_of now1) (yesterday_of h now2) x g =
   push (recency_key (recency h now1 now2 x)) x g"
  by (simp add: group_note_def recency_def num_lt_sub thirty_days_def Let_def split: option.splits)

lemma fold_group_note:
  "fold (group_note h (today_of now1) (yesterday_of h now2)) xs
     [(''Today'', a), (''Yesterday'', b), (''Previous 30 Days'', c), (''Older'', d)] =
   [(''Today'', a @ filter (\<lambda>n. recency h now1 now2 n = Today) xs),
    (''Yesterday'', b @ filter (\<lambda>n. recency h now1 now2 n = Yesterday) xs),
    (''Previous 30 Days'', c @ filter (\<lambda>n. recency h now1 now2 n = Previous_30_Days) xs),
    (''Older'', d @ filter (\<lambda>n. recency h now1 now2 n = Older) xs)]"
proof (induction xs arbitrary: a b c d)
  case Nil
  show ?case by simp
next
  case (Cons x xs)
  have step:
    "group_note h (today_of now1) (yesterday_of h now2) x
       [(''Today'', a), (''Yesterday'', b), (''Previous 30 Days'', c), (''Older'', d)] =
     [(''Today'', a @ filter (\<lambda>n. recency h now1 now2 n = Today) [x]),
      (''Yesterday'', b @ filter (\<lambda>n. recency h now1 now2 n = Yesterday) [x]),
      (''Previous 30 Days'', c @ filter (\<lambda>n. recency h now1 now2 n = Previous_30_Days) [x]),
      (''Older'', d @ filter (\<lambda>n. recency h now1 now2 n = Older) [x])]"
    by (cases "recency h now1 now2 x") (simp_all add: group_note_recency push_def)
  have "fold (group_note h (today_of now1) (yesterday_of h now2)) (x # xs)
          [(''Today'', a), (''Yesterday'', b), (''Previous 30 Days'', c), (''Older'', d)] =
        fold (group_note h (today_of now1) (yesterday_of h now2)) xs
          (group_note h (today_of now1) (yesterday_of h now2) x
             [(''Today'', a), (''Yesterday'', b), (''Previous 30 Days'', c), (''Older'', d)])"
    by simp
  also have "\<dots> =
     [(''Today'', (a @ filter (\<lambda>n. recency h now1 now2 n = Today) [x]) @
                  filter (\<lambda>n. recency h now1 now2 n = Today) xs),
      (''Yesterday'', (b @ filter (\<lambda>n. recency h now1 now2 n = Yesterday) [x]) @
                  filter (\<lambda>n. recency h now1 now2 n = Yesterday) xs),
      (''Previous 30 Days'', (c @ filter (\<lambda>n. recency h now1 now2 n = Previous_30_Days) [x]) @
                  filter (\<lambda>n. recency h now1 now2 n = Previous_30_Days) xs),
      (''Older'', (d @ filter (\<lambda>n. recency h now1 now2 n = Older) [x]) @
                  filter (\<lambda>n. recency h now1 now2 n = Older) xs)]"
    by (simp only: step Cons.IH)
  also have "\<dots> =
     [(''Today'', a @ filter (\<lambda>n. recency h now1 now2 n = Today) (x # xs)),
      (''Yesterday'', b @ filter (\<lambda>n. recency h now1 now2 n = Yesterday) (x # xs)),
      (''Previous 30 Days'', c @ filter (\<lambda>n. recency h now1 now2 n = Previous_30_Days) (x # xs)),
      (''Older'', d @ filter (\<lambda>n. recency h now1 now2 n = Older) (x # xs))]"
    by simp
  finally show ?case .
qed

lemma bucket_groupedNotes:
  "bucket (groupedNotes h now1 now2 notes q) (recency_key B) =
   filter (\<lambda>n. recency h now1 now2 n = B) (filtered h notes q)"
proof (cases "notes = []")
  case True
  then show ?thesis by (simp add: groupedNotes_def bucket_def filtered_def)
next
  case False
  then show ?thesis
    by (cases B) (simp_all add: groupedNotes_def bucket_def fold_group_note Let_def)
qed

text \<open>
  Claim C4.  For clock readings \<open>now1\<close> (for \<open>today\<close>) and \<open>now2\<close> (for \<open>yesterday\<close>; a
  fixed reference now is \<open>now1 = now2\<close>), every bucket of \<open>groupedNotes\<close> is the filtered
  collection restricted, in collection order, to the notes of that recency: Today for the
  calendar day of now, Yesterday for the calendar day of now minus one day, Previous 30
  Days for neither with less than 30 days of elapsed time, Older for everything else.  So
  every note of the filtered collection is in exactly one bucket.
\<close>

theorem groupedNotes_partition:
  "(\<forall>B. bucket (groupedNotes h now1 now2 notes q) (recency_key B) =
        filter (\<lambda>n. recency h now1 now2 n = B) (filtered h notes q)) \<and>
   (\<forall>n \<in> set (filtered h notes q).
        \<exists>!B. n \<in> set (bucket (groupedNotes h now1 now2 notes q) (recency_key B)))"
  by (auto simp: bucket_groupedNotes)

theorem groupedNotes_partition_witness:
  "bucket (groupedNotes demo_host demo_now demo_now [note_D, note_A, note_B, note_C] [])
      (recency_key Yesterday) = [note_B] \<and>
   bucket (groupedNotes demo_host demo_now demo_now [note_D, note_A, note_B, note_C] [])
      (recency_key Today) = [note_A]"
proof -
  have f: "filtered demo_host [note_D, note_A, note_B, note_C] [] = [note_D, note_A, note_B, note_C]"
    by (simp add: filtered_def)
  have r: "recency demo_host demo_now demo_now note_D = Older"
          "recency demo_host demo_now demo_now note_A = Today"
          "recency demo_host demo_now demo_now note_B = Yesterday"
          "recency demo_host demo_now demo_now note_C = Previous_30_Days"
    by code_simp+
  note t = groupedNotes_partition [of demo_host demo_now demo_now "[note_D, note_A, note_B, note_C]" "[]"]
  have a: "bucket (groupedNotes demo_host demo_now demo_now [note_D, note_A, note_B, note_C] [])
             (recency_key Yesterday) = [note_B]"
    using spec [OF conjunct1 [OF t], of Yesterday] by (simp add: f r)
  have b: "bucket (groupedNotes demo_host demo_now demo_now [note_D, note_A, note_B, note_C] [])
             (recency_key Today) = [note_A]"
    using spec [OF conjunct1 [OF t], of Today] by (simp add: f r)
  from a b show ?thesis by blast
qed

section \<open>The save operation\<close>

lemma request_frame:
  "table (snd (request e w)) = table w"
  "auth_uid (snd (request e w)) = auth_uid w"
  "trace (snd (request e w)) = trace w @ [e]"
  by (simp_all add: request_def split: list.splits)

lemma supabase_upsert_frame:
  "auth_uid (snd (supabase_upsert n w)) = auth_uid w"
  "trace (snd (supabase_upsert n w)) = trace w @ [Upsert n]"
  "fst (supabase_upsert n w) \<noteq> Data () \<Longrightarrow> table (snd (supabase_upsert n w)) = table w"
  using request_frame [of "Upsert n" w]
  by (auto simp: supabase_upsert_def split: prod.splits reply.splits option.splits)

lemma saveNote_cases:
  "saveNote n w =
     (case fst (supabase_upsert n w) of
        Data u \<Rightarrow> Inr ()
      | Error m \<Rightarrow> Inl (or_else m (js ''Failed to connect to server''))
      | Throws m \<Rightarrow> Inl (or_else m (js ''Failed to connect to server'')),
      snd (supabase_upsert n w))"
  by (simp add: saveNote_def split: prod.splits response.splits)

lemma saveCurrentNote_failure:
  assumes "currentUser st = Some u"
    and "\<not> (trim (editorTitle st) = [] \<and> trim (editorContent st) = [])"
    and "fst (supabase_upsert (noteToSave rid ts u st) w) \<noteq> Data ()"
  shows "saveCurrentNote h rid ts ex (st, w) =
           (st\<lparr>isSaving := False\<rparr>,
            alert (js ''Failed to save: '' @ save_error (fst (supabase_upsert (noteToSave rid ts u st) w)))
              (snd (supabase_upsert (noteToSave rid ts u st) w)))"
  using assms
  by (cases "fst (supabase_upsert (noteToSave rid ts u st) w)")
     (auto simp: saveCurrentNote_def saveNote_cases save_error_def Let_def)

lemma saveCurrentNote_0_failure:
  assumes "currentUser st = Some u"
    and "\<not> (trim (editorTitle st) = [] \<and> trim (editorContent st) = [])"
    and "fst (supabase_upsert (noteToSave_0 rid ts u st) w) \<noteq> Data ()"
  shows "saveCurrentNote_0 h rid ts (st, w) =
           (st\<lparr>isSaving := False\<rparr>,
            alert (js ''Failed to save note: '' @ save_error (fst (supabase_upsert (noteToSave_0 rid ts u st) w)))
              (snd (supabase_upsert (noteToSave_0 rid ts u st) w)))"
  using assms
  by (cases "fst (supabase_upsert (noteToSave_0 rid ts u st) w)")
     (auto simp: saveCurrentNote_0_def saveNote_cases save_error_def Let_def)

lemma discard:
  assumes "trim (editorTitle st) = []" and "trim (editorContent st) = []"
  shows "snd (saveCurrentNote h rid ts ex (st, w)) = w"
    and "fst (saveCurrentNote h rid ts ex (st, w)) = st \<or>
         fst (saveCurrentNote h rid ts ex (st, w)) = st\<lparr>currentView := LIST\<rparr>"
    and "snd (saveCurrentNote_0 h rid ts (st, w)) = w"
    and "fst (saveCurrentNote_0 h rid ts (st, w)) = st \<or>
         fst (saveCurrentNote_0 h rid ts (st, w)) = st\<lparr>currentView := LIST\<rparr>"
  using assms
  by (auto simp: saveCurrentNote_def saveCurrentNote_0_def Let_def split: option.splits)

lemma supabase_upsert_stored:
  assumes "fst (supabase_upsert n w) = Data ()"
  shows "auth_uid w = Some (user_id n)"
    and "\<exists>r \<in> set (table (snd (supabase_upsert n w))).
           note_id r = note_id n \<and> user_id r = user_id n \<and> title r = title n \<and> content r = content n"
proof -
  obtain r w' where q: "request (Upsert n) w = (r, w')"
    by (cases "request (Upsert n) w")
  have fr: "table w' = table w" "auth_uid w' = auth_uid w"
    using request_frame(1,2) [of "Upsert n" w] q by simp_all
  from assms q obtain now where s: "r = Served now"
    by (cases r) (simp_all add: supabase_upsert_def)
  from assms q s fr show "auth_uid w = Some (user_id n)"
    by (simp add: supabase_upsert_def split: if_splits)
  show "\<exists>r \<in> set (table (snd (supabase_upsert n w))).
           note_id r = note_id n \<and> user_id r = user_id n \<and> title r = title n \<and> content r = content n"
  proof (cases "find (\<lambda>r. note_id r = note_id n) (table w')")
    case None
    with assms q s show ?thesis
      by (simp add: supabase_upsert_def split: if_splits)
  next
    case (Some old)
    then have o: "old \<in> set (table w')" "note_id old = note_id n"
      by (auto simp: find_Some_iff)
    define f where "f = (\<lambda>r. if note_id r = note_id n
                          then n\<lparr>updated_at := now,
                                 created_at := (case created_at n of None \<Rightarrow> created_at r
                                                | Some c \<Rightarrow> Some c)\<rparr>
                          else r)"
    from assms q s Some have "table (snd (supabase_upsert n w)) = map f (table w')"
      by (simp add: supabase_upsert_def f_def split: if_splits)
    moreover from o have "f old \<in> set (map f (table w'))"
      by simp
    moreover from o have "note_id (f old) = note_id n \<and> user_id (f old) = user_id n \<and>
                          title (f old) = title n \<and> content (f old) = content n"
      by (simp add: f_def)
    ultimately show ?thesis
      by metis
  qed
qed

lemma supabase_select_frame:
  "trace (snd (supabase_select h userId w)) = trace w @ [Select userId]"
  "table (snd (supabase_select h userId w)) = table w"
  using request_frame [of "Select userId" w]
  by (auto simp: supabase_select_def split: prod.splits reply.splits)

lemma supabase_select_rows:
  assumes "fst (supabase_select h userId w) = Data d"
  shows "set d = {r \<in> set (table w). user_id r = userId \<and> auth_uid w = Some (user_id r)}"
proof -
  obtain r w' where q: "request (Select userId) w = (r, w')"
    by (cases "request (Select userId) w")
  have fr: "table w' = table w" "auth_uid w' = auth_uid w"
    using request_frame(1,2) [of "Select userId" w] q by simp_all
  from assms q fr show ?thesis
    by (cases r) (auto simp: supabase_select_def)
qed

lemma getNotes_cases:
  "getNotes h userId w =
     (case fst (supabase_select h userId w) of Data d \<Rightarrow> d | Error m \<Rightarrow> [] | Throws m \<Rightarrow> [],
      snd (supabase_select h userId w))"
  by (simp add: getNotes_def split: prod.splits response.splits)

lemma saveCurrentNote_success:
  assumes "currentUser st = Some u"
    and "\<not> (trim (editorTitle st) = [] \<and> trim (editorContent st) = [])"
    and "fst (supabase_upsert (noteToSave rid ts u st) w) = Data ()"
  shows "notes_state (fst (saveCurrentNote h rid ts ex (st, w))) =
           fst (getNotes h (uid u) (snd (supabase_upsert (noteToSave rid ts u st) w)))"
    and "snd (saveCurrentNote h rid ts ex (st, w)) =
           snd (getNotes h (uid u) (snd (supabase_upsert (noteToSave rid ts u st) w)))"
  using assms
  by (auto simp: saveCurrentNote_def saveNote_cases loadNotes_def Let_def split: prod.splits)

lemma saveCurrentNote_0_success:
  assumes "currentUser st = Some u"
    and "\<not> (trim (editorTitle st) = [] \<and> trim (editorContent st) = [])"
    and "fst (supabase_upsert (noteToSave_0 rid ts u st) w) = Data ()"
  shows "notes_state (fst (saveCurrentNote_0 h rid ts (st, w))) =
           fst (getNotes h (uid u) (snd (supabase_upsert (noteToSave_0 rid ts u st) w)))"
    and "snd (saveCurrentNote_0 h rid ts (st, w)) =
           snd (getNotes h (uid u) (snd (supabase_upsert (noteToSave_0 rid ts u st) w)))"
  using assms
  by (auto simp: saveCurrentNote_0_def saveNote_cases loadNotes_def Let_def split: prod.splits)

lemma titleToSave_nonempty: "titleToSave st \<noteq> []"
  by (simp add: titleToSave_def or_else_def js_def Let_def)

lemma title_0_nonempty: "title (noteToSave_0 rid ts u st) \<noteq> []"
  by (simp add: noteToSave_0_def or_else_def js_def)

lemma reload_contains:
  assumes "fst (supabase_upsert n w) = Data ()"
    and "fst (supabase_select h (user_id n) (snd (supabase_upsert n w))) = Data d"
  shows "fst (getNotes h (user_id n) (snd (supabase_upsert n w))) = d"
    and "\<exists>m \<in> set d. note_id m = note_id n \<and> title m = title n \<and> content m = content n"
proof -
  show "fst (getNotes h (user_id n) (snd (supabase_upsert n w))) = d"
    using assms(2) by (simp add: getNotes_cases)
  from supabase_upsert_stored(2) [OF assms(1)] obtain r
    where r: "r \<in> set (table (snd (supabase_upsert n w)))" "note_id r = note_id n"
      "user_id r = user_id n" "title r = title n" "content r = content n"
    by blast
  have "auth_uid (snd (supabase_upsert n w)) = Some (user_id n)"
    using supabase_upsert_stored(1) [OF assms(1)] by (simp add: supabase_upsert_frame)
  with r have "r \<in> set d"
    by (simp add: supabase_select_rows [OF assms(2)])
  with r show "\<exists>m \<in> set d. note_id m = note_id n \<and> title m = title n \<and> content m = content n"
    by blast
qed

text \<open>
  Claim C3.  When the title and the content of the draft are both empty or made of white
  space only, saving leaves the world as it was (the remote table, the replies not yet
  consumed and the trace of requests and alerts: no request is sent) and leaves the local
  collection as it was, in both \<open>App\<close> components.
\<close>

theorem discard_policy:
  assumes "\<forall>c \<in> set (editorTitle st). isWhiteSpace c"
    and "\<forall>c \<in> set (editorContent st). isWhiteSpace c"
  shows "snd (saveCurrentNote h rid ts ex (st, w)) = w \<and>
         notes_state (fst (saveCurrentNote h rid ts ex (st, w))) = notes_state st \<and>
         snd (saveCurrentNote_0 h rid ts (st, w)) = w \<and>
         notes_state (fst (saveCurrentNote_0 h rid ts (st, w))) = notes_state st"
proof -
  have t: "trim (editorTitle st) = []" and c: "trim (editorContent st) = []"
    using assms by (simp_all add: trim_empty_iff)
  show ?thesis
    using discard(1) [OF t c, of h rid ts ex w] discard(2) [OF t c, of h rid ts ex w]
      discard(3) [OF t c, of h rid ts w] discard(4) [OF t c, of h rid ts w]
    by auto
qed

theorem discard_policy_witness:
  "snd (saveCurrentNote demo_host (js ''n'') (js ''t'') True
          (demo_app ''  '' '' '', demo_world [Served []])) = demo_world [Served []] \<and>
   snd (saveCurrentNote_0 demo_host (js ''n'') (js ''t'')
          (demo_app ''  '' '' '', demo_world [Served []])) = demo_world [Served []]"
proof -
  have t: "\<forall>c \<in> set (editorTitle (demo_app ''  '' '' '')). isWhiteSpace c"
    by (simp add: demo_app_def js_def isWhiteSpace_def)
  have c: "\<forall>c \<in> set (editorContent (demo_app ''  '' '' '')). isWhiteSpace c"
    by (simp add: demo_app_def js_def isWhiteSpace_def)
  show ?thesis
    using discard_policy [OF t c, of demo_host "js ''n''" "js ''t''" True "demo_world [Served []]"]
    by simp
qed

text \<open>
  Claim C10.  Opening an existing note, replacing its title and content by white space (or
  nothing) and saving takes the discard path: the world is as before, so no upsert and no
  delete is sent and the table still holds the note unchanged, and the local collection
  and the selected note are as before, in both \<open>App\<close> components.
\<close>

theorem discard_keeps_existing_note:
  assumes "\<forall>x \<in> set t. isWhiteSpace x" and "\<forall>x \<in> set c. isWhiteSpace x"
  shows "(let sw = saveCurrentNote h rid ts ex ((openNote n st)\<lparr>editorTitle := t, editorContent := c\<rparr>, w)
          in snd sw = w \<and> table (snd sw) = table w \<and> trace (snd sw) = trace w \<and>
             notes_state (fst sw) = notes_state st \<and> selectedNote (fst sw) = Some n) \<and>
         (let sw = saveCurrentNote_0 h rid ts ((openNote_0 n st)\<lparr>editorTitle := t, editorContent := c\<rparr>, w)
          in snd sw = w \<and> table (snd sw) = table w \<and> trace (snd sw) = trace w \<and>
             notes_state (fst sw) = notes_state st \<and> selectedNote (fst sw) = Some n)"
proof -
  have t: "trim t = []" and c: "trim c = []"
    using assms by (simp_all add: trim_empty_iff)
  let ?st1 = "(openNote n st)\<lparr>editorTitle := t, editorContent := c\<rparr>"
  let ?st0 = "(openNote_0 n st)\<lparr>editorTitle := t, editorContent := c\<rparr>"
  have a: "snd (saveCurrentNote h rid ts ex (?st1, w)) = w"
    by (rule discard(1)) (simp_all add: t c)
  have b: "fst (saveCurrentNote h rid ts ex (?st1, w)) = ?st1 \<or>
           fst (saveCurrentNote h rid ts ex (?st1, w)) = ?st1\<lparr>currentView := LIST\<rparr>"
    by (rule discard(2)) (simp_all add: t c)
  have a0: "snd (saveCurrentNote_0 h rid ts (?st0, w)) = w"
    by (rule discard(3)) (simp_all add: t c)
  have b0: "fst (saveCurrentNote_0 h rid ts (?st0, w)) = ?st0 \<or>
            fst (saveCurrentNote_0 h rid ts (?st0, w)) = ?st0\<lparr>currentView := LIST\<rparr>"
    by (rule discard(4)) (simp_all add: t c)
  have n1: "notes_state (fst (saveCurrentNote h rid ts ex (?st1, w))) = notes_state st \<and>
            selectedNote (fst (saveCurrentNote h rid ts ex (?st1, w))) = Some n"
    using b by (auto simp: openNote_def)
  have n0: "notes_state (fst (saveCurrentNote_0 h rid ts (?st0, w))) = notes_state st \<and>
            selectedNote (fst (saveCurrentNote_0 h rid ts (?st0, w))) = Some n"
    using b0 by (auto simp: openNote_0_def)
  show ?thesis
    using a a0 n1 n0 by (simp add: Let_def)
qed

theorem discard_keeps_existing_note_witness:
  "table (snd (saveCurrentNote demo_host (js ''n'') (js ''t'') True
      ((openNote note_A (demo_app ''x'' ''y''))\<lparr>editorTitle := js '' '', editorContent := []\<rparr>,
       demo_world [Served []]))) = [note_A, note_B] \<and>
   notes_state (fst (saveCurrentNote demo_host (js ''n'') (js ''t'') True
      ((openNote note_A (demo_app ''x'' ''y''))\<lparr>editorTitle := js '' '', editorContent := []\<rparr>,
       demo_world [Served []]))) = [note_A, note_B]"
proof -
  have t: "\<forall>x \<in> set (js '' ''). isWhiteSpace x"
    by (simp add: js_def isWhiteSpace_def)
  have c: "\<forall>x \<in> set ([] :: jsstring). isWhiteSpace x"
    by simp
  show ?thesis
    using discard_keeps_existing_note [OF t c, of demo_host "js ''n''" "js ''t''" True note_A
        "demo_app ''x'' ''y''" "demo_world [Served []]"]
    by (simp add: Let_def demo_world_def demo_app_def)
qed

text \<open>
  Claim C2.  When a user is signed in, the draft is not discarded and the upsert of the
  note does not succeed, the save operation returns with the state of the component as it
  was (only \<open>isSaving\<close> is reset), so the local collection is unchanged, the table is
  unchanged, and the failure is reported by an alert that follows the upsert request; the
  operation has no exceptional outcome.  This holds in both \<open>App\<close> components.
\<close>

theorem save_failure_atomic:
  assumes "currentUser st = Some u"
    and "\<not> (trim (editorTitle st) = [] \<and> trim (editorContent st) = [])"
  shows "(fst (supabase_upsert (noteToSave rid ts u st) w) \<noteq> Data () \<longrightarrow>
            (\<exists>m. fst (saveCurrentNote h rid ts ex (st, w)) = st\<lparr>isSaving := False\<rparr> \<and>
                 notes_state (fst (saveCurrentNote h rid ts ex (st, w))) = notes_state st \<and>
                 table (snd (saveCurrentNote h rid ts ex (st, w))) = table w \<and>
                 trace (snd (saveCurrentNote h rid ts ex (st, w))) =
                   trace w @ [Upsert (noteToSave rid ts u st), Alert (js ''Failed to save: '' @ m)])) \<and>
         (fst (supabase_upsert (noteToSave_0 rid ts u st) w) \<noteq> Data () \<longrightarrow>
            (\<exists>m. fst (saveCurrentNote_0 h rid ts (st, w)) = st\<lparr>isSaving := False\<rparr> \<and>
                 notes_state (fst (saveCurrentNote_0 h rid ts (st, w))) = notes_state st \<and>
                 table (snd (saveCurrentNote_0 h rid ts (st, w))) = table w \<and>
                 trace (snd (saveCurrentNote_0 h rid ts (st, w))) =
                   trace w @ [Upsert (noteToSave_0 rid ts u st), Alert (js ''Failed to save note: '' @ m)]))"
  using assms
  by (auto simp: saveCurrentNote_failure saveCurrentNote_0_failure alert_def supabase_upsert_frame)

theorem save_failure_atomic_witness:
  "notes_state (fst (saveCurrentNote demo_host (js ''n'') (js ''t'') True
      (demo_app ''Title'' ''text'', demo_world [Rejected (js ''boom'')]))) = [note_A, note_B] \<and>
   notes_state (fst (saveCurrentNote_0 demo_host (js ''n'') (js ''t'')
      (demo_app ''Title'' ''text'', demo_world [Rejected (js ''boom'')]))) = [note_A, note_B]"
proof -
  have u: "currentUser (demo_app ''Title'' ''text'') = Some demo_user"
    by (simp add: demo_app_def)
  have d: "\<not> (trim (editorTitle (demo_app ''Title'' ''text'')) = [] \<and>
              trim (editorContent (demo_app ''Title'' ''text'')) = [])"
    by (simp add: demo_app_def js_def trim_def isWhiteSpace_def)
  have f: "fst (supabase_upsert (noteToSave (js ''n'') (js ''t'') demo_user (demo_app ''Title'' ''text''))
                  (demo_world [Rejected (js ''boom'')])) \<noteq> Data ()"
    by (simp add: supabase_upsert_def request_def demo_world_def)
  have f0: "fst (supabase_upsert (noteToSave_0 (js ''n'') (js ''t'') demo_user (demo_app ''Title'' ''text''))
                  (demo_world [Rejected (js ''boom'')])) \<noteq> Data ()"
    by (simp add: supabase_upsert_def request_def demo_world_def)
  have n: "notes_state (demo_app ''Title'' ''text'') = [note_A, note_B]"
    by (simp add: demo_app_def)
  show ?thesis
    using save_failure_atomic [OF u d, of "js ''n''" "js ''t''" "demo_world [Rejected (js ''boom'')]"
        demo_host True] f f0 n
    by auto
qed

text \<open>
  Claim C7, as stated, fails: \<open>getNotes\<close> answers a failed fetch with the empty list.  Here
  the upsert is served and stores the note, the reload that follows cannot reach the
  server, no alert is raised, and the local collection ends up empty.
\<close>

theorem read_your_writes_counterexample:
  "fst (supabase_upsert (noteToSave (js ''n'') (js ''2024-03-10T09:00:00.000Z'') demo_user (demo_app '''' ''Buy milk''))
          (demo_world [Served []])) = Data () \<and>
   notes_state (fst (saveCurrentNote demo_host (js ''n'') (js ''2024-03-10T09:00:00.000Z'') True
              (demo_app '''' ''Buy milk'', demo_world [Served []]))) = [] \<and>
   map note_id (table (snd (saveCurrentNote demo_host (js ''n'') (js ''2024-03-10T09:00:00.000Z'') True
              (demo_app '''' ''Buy milk'', demo_world [Served []])))) = [js ''a'', js ''b'', js ''n''] \<and>
   trace (snd (saveCurrentNote demo_host (js ''n'') (js ''2024-03-10T09:00:00.000Z'') True
              (demo_app '''' ''Buy milk'', demo_world [Served []]))) =
     [Upsert (noteToSave (js ''n'') (js ''2024-03-10T09:00:00.000Z'') demo_user (demo_app '''' ''Buy milk'')),
      Select (js ''u1'')]"
  by code_simp

text \<open>
  Claim C7, amended.  When the upsert succeeds and the fetch of the reload that the save
  operation triggers returns data, the local collection is that data and it contains a
  note with the saved identifier whose title is the title written, which is not empty.
  This holds in both \<open>App\<close> components.
\<close>

theorem read_your_writes:
  assumes "currentUser st = Some u"
    and "\<not> (trim (editorTitle st) = [] \<and> trim (editorContent st) = [])"
  shows "(fst (supabase_upsert (noteToSave rid ts u st) w) = Data () \<and>
          fst (supabase_select h (uid u) (snd (supabase_upsert (noteToSave rid ts u st) w))) = Data d \<longrightarrow>
            notes_state (fst (saveCurrentNote h rid ts ex (st, w))) = d \<and>
            (\<exists>m \<in> set d. note_id m = note_id (noteToSave rid ts u st) \<and>
                          title m = titleToSave st \<and> title m \<noteq> [])) \<and>
         (fst (supabase_upsert (noteToSave_0 rid ts u st) w) = Data () \<and>
          fst (supabase_select h (uid u) (snd (supabase_upsert (noteToSave_0 rid ts u st) w))) = Data d \<longrightarrow>
            notes_state (fst (saveCurrentNote_0 h rid ts (st, w))) = d \<and>
            (\<exists>m \<in> set d. note_id m = note_id (noteToSave_0 rid ts u st) \<and>
                          title m = or_else (editorTitle st) (js ''New Note'') \<and> title m \<noteq> []))"
proof (intro conjI impI)
  assume a: "fst (supabase_upsert (noteToSave rid ts u st) w) = Data () \<and>
          fst (supabase_select h (uid u) (snd (supabase_upsert (noteToSave rid ts u st) w))) = Data d"
  have un: "user_id (noteToSave rid ts u st) = uid u" "title (noteToSave rid ts u st) = titleToSave st"
    by (simp_all add: noteToSave_def)
  from a have s: "fst (supabase_select h (user_id (noteToSave rid ts u st))
                    (snd (supabase_upsert (noteToSave rid ts u st) w))) = Data d"
    by (simp add: un)
  show "notes_state (fst (saveCurrentNote h rid ts ex (st, w))) = d"
    using saveCurrentNote_success(1) [OF assms conjunct1 [OF a], of h ex]
      reload_contains(1) [OF conjunct1 [OF a] s] by (simp add: un)
  show "\<exists>m \<in> set d. note_id m = note_id (noteToSave rid ts u st) \<and>
                          title m = titleToSave st \<and> title m \<noteq> []"
    using reload_contains(2) [OF conjunct1 [OF a] s] titleToSave_nonempty [of st]
    by (auto simp: un)
next
  assume a: "fst (supabase_upsert (noteToSave_0 rid ts u st) w) = Data () \<and>
          fst (supabase_select h (uid u) (snd (supabase_upsert (noteToSave_0 rid ts u st) w))) = Data d"
  have un: "user_id (noteToSave_0 rid ts u st) = uid u"
    "title (noteToSave_0 rid ts u st) = or_else (editorTitle st) (js ''New Note'')"
    by (simp_all add: noteToSave_0_def)
  from a have s: "fst (supabase_select h (user_id (noteToSave_0 rid ts u st))
                    (snd (supabase_upsert (noteToSave_0 rid ts u st) w))) = Data d"
    by (simp add: un)
  show "notes_state (fst (saveCurrentNote_0 h rid ts (st, w))) = d"
    using saveCurrentNote_0_success(1) [OF assms conjunct1 [OF a], of h]
      reload_contains(1) [OF conjunct1 [OF a] s] by (simp add: un)
  show "\<exists>m \<in> set d. note_id m = note_id (noteToSave_0 rid ts u st) \<and>
                          title m = or_else (editorTitle st) (js ''New Note'') \<and> title m \<noteq> []"
    using reload_contains(2) [OF conjunct1 [OF a] s] title_0_nonempty [of rid ts u st]
    by (auto simp: un)
qed

theorem read_your_writes_witness:
  "notes_state (fst (saveCurrentNote demo_host (js ''n'') (js ''2024-03-10T09:00:00.000Z'') True
              (demo_app '''' ''Buy milk'', demo_world [Served [], Served []]))) =
     [note_A,
      \<lparr>note_id = js ''n'', user_id = js ''u1'', title = js ''Buy milk'', content = js ''Buy milk'',
       updated_at = js ''2024-03-10T09:00:00.000Z'', created_at = Some []\<rparr>,
      note_B]"
proof -
  let ?st = "demo_app '''' ''Buy milk''"
  let ?w = "demo_world [Served [], Served []]"
  let ?n = "noteToSave (js ''n'') (js ''2024-03-10T09:00:00.000Z'') demo_user ?st"
  have u: "currentUser ?st = Some demo_user"
    by (simp add: demo_app_def)
  have d: "\<not> (trim (editorTitle ?st) = [] \<and> trim (editorContent ?st) = [])"
    by (simp add: demo_app_def js_def trim_def isWhiteSpace_def)
  have f: "fst (supabase_upsert ?n ?w) = Data ()"
    by code_simp
  let ?dd = "[note_A, ?n\<lparr>created_at := Some []\<rparr>, note_B]"
  have s: "fst (supabase_select demo_host (uid demo_user) (snd (supabase_upsert ?n ?w))) = Data ?dd"
    by code_simp
  have i: "?n\<lparr>created_at := Some []\<rparr> =
             \<lparr>note_id = js ''n'', user_id = js ''u1'', title = js ''Buy milk'', content = js ''Buy milk'',
              updated_at = js ''2024-03-10T09:00:00.000Z'', created_at = Some []\<rparr>"
    by code_simp
  have "notes_state (fst (saveCurrentNote demo_host (js ''n'') (js ''2024-03-10T09:00:00.000Z'') True (?st, ?w))) = ?dd"
    using read_your_writes [OF u d, of "js ''n''" "js ''2024-03-10T09:00:00.000Z''" ?w demo_host ?dd True] f s
    by blast
  then show ?thesis
    by (simp only: i)
qed

section \<open>The title that is written\<close>

lemma getNotes_trace: "trace (snd (getNotes h userId w)) = trace w @ [Select userId]"
  by (simp add: getNotes_cases supabase_select_frame)

lemma saveCurrentNote_writes:
  assumes "currentUser st = Some u"
    and "\<not> (trim (editorTitle st) = [] \<and> trim (editorContent st) = [])"
  shows "\<exists>rest. trace (snd (saveCurrentNote h rid ts ex (st, w))) =
           trace w @ Upsert (noteToSave rid ts u st) # rest"
proof (cases "fst (supabase_upsert (noteToSave rid ts u st) w) = Data ()")
  case True
  show ?thesis
    by (simp add: saveCurrentNote_success(2) [OF assms True] getNotes_trace supabase_upsert_frame)
next
  case False
  show ?thesis
    by (simp add: saveCurrentNote_failure [OF assms False] alert_def supabase_upsert_frame)
qed

lemma saveCurrentNote_0_writes:
  assumes "currentUser st = Some u"
    and "\<not> (trim (editorTitle st) = [] \<and> trim (editorContent st) = [])"
  shows "\<exists>rest. trace (snd (saveCurrentNote_0 h rid ts (st, w))) =
           trace w @ Upsert (noteToSave_0 rid ts u st) # rest"
proof (cases "fst (supabase_upsert (noteToSave_0 rid ts u st) w) = Data ()")
  case True
  show ?thesis
    by (simp add: saveCurrentNote_0_success(2) [OF assms True] getNotes_trace supabase_upsert_frame)
next
  case False
  show ?thesis
    by (simp add: saveCurrentNote_0_failure [OF assms False] alert_def supabase_upsert_frame)
qed

text \<open>
  In \<open>part_001\<close> a draft with a blank title and a content that is not blank is written
  with the first line of the content, cut to 30 code units, as its title, or with
  \<open>New Note\<close> when that is empty; a draft whose trimmed title is not empty is written with
  the trimmed title.  The content is written as it is.
\<close>

lemma title_inferred_part_001:
  assumes "trim (editorTitle st) = []" and "trim (editorContent st) \<noteq> []"
  shows "title (noteToSave rid ts u st) =
           (if take 30 (takeWhile (\<lambda>c. c \<noteq> 0x0A) (editorContent st)) = [] then js ''New Note''
            else take 30 (takeWhile (\<lambda>c. c \<noteq> 0x0A) (editorContent st)))"
    and "content (noteToSave rid ts u st) = editorContent st"
proof -
  from assms(2) have "editorContent st \<noteq> []"
    by (auto simp: trim_def)
  with assms(1) show "title (noteToSave rid ts u st) =
           (if take 30 (takeWhile (\<lambda>c. c \<noteq> 0x0A) (editorContent st)) = [] then js ''New Note''
            else take 30 (takeWhile (\<lambda>c. c \<noteq> 0x0A) (editorContent st)))"
    by (simp add: noteToSave_def titleToSave_def or_else_def substring_0_def split_newline_0_def Let_def)
  show "content (noteToSave rid ts u st) = editorContent st"
    by (simp add: noteToSave_def)
qed

lemma title_explicit_part_001:
  assumes "trim (editorTitle st) \<noteq> []"
  shows "title (noteToSave rid ts u st) = trim (editorTitle st)"
    and "content (noteToSave rid ts u st) = editorContent st"
  using assms by (simp_all add: noteToSave_def titleToSave_def Let_def)

text \<open>
  Claim C1.  The title of a draft with a blank title is to be inferred from the first line
  of the content.  \<open>saveCurrentNote\<close> of \<open>part_000\<close> does not do so: for the empty title
  and the content \<open>Hello world\<close>, newline, \<open>more text\<close> it upserts a note with the title
  \<open>New Note\<close>, where \<open>saveCurrentNote\<close> of \<open>part_001\<close> upserts the title \<open>Hello world\<close>.
\<close>

theorem title_not_inferred_part_000:
  "trim (editorTitle ((demo_app '''' '''')\<lparr>editorContent := js ''Hello world'' @ [0x0A] @ js ''more text''\<rparr>)) = [] \<and>
   trim (editorContent ((demo_app '''' '''')\<lparr>editorContent := js ''Hello world'' @ [0x0A] @ js ''more text''\<rparr>)) \<noteq> [] \<and>
   substring_0 30 (split_newline_0 (js ''Hello world'' @ [0x0A] @ js ''more text'')) = js ''Hello world'' \<and>
   hd (trace (snd (saveCurrentNote_0 demo_host (js ''n'') (js ''t'')
         ((demo_app '''' '''')\<lparr>editorContent := js ''Hello world'' @ [0x0A] @ js ''more text''\<rparr>,
          demo_world [Served [], Served []])))) =
     Upsert \<lparr>note_id = js ''n'', user_id = js ''u1'', title = js ''New Note'',
             content = js ''Hello world'' @ [0x0A] @ js ''more text'',
             updated_at = js ''t'', created_at = None\<rparr> \<and>
   hd (trace (snd (saveCurrentNote demo_host (js ''n'') (js ''t'') True
         ((demo_app '''' '''')\<lparr>editorContent := js ''Hello world'' @ [0x0A] @ js ''more text''\<rparr>,
          demo_world [Served [], Served []])))) =
     Upsert \<lparr>note_id = js ''n'', user_id = js ''u1'', title = js ''Hello world'',
             content = js ''Hello world'' @ [0x0A] @ js ''more text'',
             updated_at = js ''t'', created_at = None\<rparr>"
  by code_simp

text \<open>
  Claim C6.  A draft whose trimmed title is not empty is to be written with the trimmed
  title.  \<open>saveCurrentNote\<close> of \<open>part_000\<close> writes the title as typed: the title \<open>a\<close>
  between two spaces is upserted with its spaces, where \<open>part_001\<close> upserts \<open>a\<close>; and a
  title of two spaces, with the content \<open>x\<close>, is upserted as the title.
\<close>

theorem title_not_trimmed_part_000:
  "trim (editorTitle (demo_app '' a '' ''x'')) = js ''a'' \<and>
   hd (trace (snd (saveCurrentNote_0 demo_host (js ''n'') (js ''t'')
         (demo_app '' a '' ''x'', demo_world [Served [], Served []])))) =
     Upsert \<lparr>note_id = js ''n'', user_id = js ''u1'', title = js '' a '',
             content = js ''x'', updated_at = js ''t'', created_at = None\<rparr> \<and>
   hd (trace (snd (saveCurrentNote demo_host (js ''n'') (js ''t'') True
         (demo_app '' a '' ''x'', demo_world [Served [], Served []])))) =
     Upsert \<lparr>note_id = js ''n'', user_id = js ''u1'', title = js ''a'',
             content = js ''x'', updated_at = js ''t'', created_at = None\<rparr> \<and>
   trim (editorTitle (demo_app ''  '' ''x'')) = [] \<and>
   hd (trace (snd (saveCurrentNote_0 demo_host (js ''n'') (js ''t'')
         (demo_app ''  '' ''x'', demo_world [Served [], Served []])))) =
     Upsert \<lparr>note_id = js ''n'', user_id = js ''u1'', title = js ''  '',
             content = js ''x'', updated_at = js ''t'', created_at = None\<rparr>"
  by code_simp

section \<open>Text transformation\<close>

text \<open>
  Claim C9.  \<open>handleAIAction\<close> leaves the editor content as it was when the API key is
  missing or empty, when the call to the model throws, and when the response has no text
  or only white space; whenever the content changes, the new content is the trimmed text
  of the response and is not empty.
\<close>

theorem transform_failure_preserves:
  "(let content' = editorContent (fst (handleAIAction g action (st, w)));
        p = prompt_of action (editorContent st)
    in (API_KEY g = None \<or> API_KEY g = Some [] \<longrightarrow> content' = editorContent st) \<and>
       (generateContent g p = GenerateThrows \<longrightarrow> content' = editorContent st) \<and>
       (generateContent g p = Response None \<longrightarrow> content' = editorContent st) \<and>
       (\<forall>t. generateContent g p = Response (Some t) \<and> trim t = [] \<longrightarrow> content' = editorContent st) \<and>
       (content' \<noteq> editorContent st \<longrightarrow>
          content' \<noteq> [] \<and> (\<exists>t. generateContent g p = Response (Some t) \<and> content' = trim t)))"
  by (cases "generateContent g (prompt_of action (editorContent st))")
     (auto simp: handleAIAction_def processNoteWithAI_def getAIClient_def or_else_def Let_def
           split: option.splits)

theorem transform_failure_preserves_witness:
  "generateContent \<lparr>API_KEY = Some (js ''key''), generateContent = (\<lambda>p. GenerateThrows)\<rparr>
      (prompt_of SUMMARIZE (editorContent (demo_app ''T'' ''some text''))) = GenerateThrows \<and>
   editorContent (fst (handleAIAction
      \<lparr>API_KEY = Some (js ''key''), generateContent = (\<lambda>p. GenerateThrows)\<rparr> SUMMARIZE
      (demo_app ''T'' ''some text'', demo_world []))) = js ''some text''"
  using transform_failure_preserves
    [of "\<lparr>API_KEY = Some (js ''key''), generateContent = (\<lambda>p. GenerateThrows)\<rparr>" SUMMARIZE
        "demo_app ''T'' ''some text''" "demo_world []"]
  by (simp add: Let_def demo_app_def)

section \<open>The derived views and the clock\<close>

lemma groupedNotes_eq:
  "groupedNotes h now1 now2 notes q =
     (if notes = [] then []
      else [(''Today'', filter (\<lambda>n. recency h now1 now2 n = Today) (filtered h notes q)),
            (''Yesterday'', filter (\<lambda>n. recency h now1 now2 n = Yesterday) (filtered h notes q)),
            (''Previous 30 Days'', filter (\<lambda>n. recency h now1 now2 n = Previous_30_Days) (filtered h notes q)),
            (''Older'', filter (\<lambda>n. recency h now1 now2 n = Older) (filtered h notes q))])"
  by (simp add: groupedNotes_def fold_group_note Let_def)

lemma filter_recency_cong:
  assumes "\<forall>n \<in> set notes. recency h a1 a2 n = recency h b1 b2 n"
  shows "filter (\<lambda>n. recency h a1 a2 n = B) (filtered h notes q) =
         filter (\<lambda>n. recency h b1 b2 n = B) (filtered h notes q)"
  using assms by (intro filter_cong) (auto simp: filtered_def)

text \<open>
  Claim C8, as stated, fails for the grouped view: \<open>groupedNotes\<close> reads the clock, and the
  same collection with the same query is grouped differently a day later.
\<close>

theorem view_deriver_counterexample:
  "groupedNotes demo_host demo_now demo_now [note_A] [] \<noteq>
   groupedNotes demo_host (demo_now + 86400000) (demo_now + 86400000) [note_A] []"
  by code_simp

text \<open>
  Claim C8, amended.  The grouped view is determined by the collection, the query and the
  clock: two calls with the same collection and the same query give the same groups
  whenever their clock readings give every note of the collection the same recency.  (The
  filtered view \<open>filteredNotes\<close> takes no clock reading at all, and both views are values
  computed from the collection, which they do not change.)
\<close>

theorem view_deriver_deterministic:
  assumes "\<forall>n \<in> set notes. recency h a1 a2 n = recency h b1 b2 n"
  shows "groupedNotes h a1 a2 notes q = groupedNotes h b1 b2 notes q"
  by (simp add: groupedNotes_eq filter_recency_cong [OF assms])

theorem view_deriver_deterministic_witness:
  "groupedNotes demo_host demo_now demo_now [note_A, note_B, note_C, note_D] [] =
   groupedNotes demo_host (demo_now + 3600000) (demo_now + 3600000) [note_A, note_B, note_C, note_D] []"
proof -
  have r: "recency demo_host demo_now demo_now note_A =
             recency demo_host (demo_now + 3600000) (demo_now + 3600000) note_A"
          "recency demo_host demo_now demo_now note_B =
             recency demo_host (demo_now + 3600000) (demo_now + 3600000) note_B"
          "recency demo_host demo_now demo_now note_C =
             recency demo_host (demo_now + 3600000) (demo_now + 3600000) note_C"
          "recency demo_host demo_now demo_now note_D =
             recency demo_host (demo_now + 3600000) (demo_now + 3600000) note_D"
    by code_simp+
  then have a: "\<forall>n \<in> set [note_A, note_B, note_C, note_D].
      recency demo_host demo_now demo_now n =
      recency demo_host (demo_now + 3600000) (demo_now + 3600000) n"
    by simp
  show ?thesis
    using view_deriver_deterministic [OF a, of "[]"] by blast
qed

end
